theory Spec2Isabelle
  imports Main
begin

section \<open>Data model\<close>

text \<open>
  The message and turn types of \<^verbatim>\<open>chat/Types.ts\<close> and
  \<^verbatim>\<open>GuideantsApi.ts\<close>. Strings are \<open>string\<close>; an optional property is an
  \<open>option\<close>.
\<close>

datatype role = User | Assistant | System | Tool

record attachment =
  notebookFileId :: string
  uploadType :: string
  fileName :: "string option"

record message =
  m_id :: string
  m_role :: role
  m_content :: string
  m_created :: string
  m_isEdited :: bool
  m_attachments :: "attachment list option"

text \<open>A turn as \<^verbatim>\<open>groupMessagesIntoTurns\<close> builds it:
  \<^verbatim>\<open>{ user: Message | null; assistants: Message[] }\<close>.\<close>

record turn =
  user :: "message option"
  assistants :: "message list"

section \<open>Turn grouping (GuideantsChatView.groupMessagesIntoTurns)\<close>

text \<open>
  The \<^verbatim>\<open>for (const msg of this.state.messages)\<close> loop, with its two local
  variables \<^verbatim>\<open>turns\<close> and \<^verbatim>\<open>currentTurn\<close> passed along.
\<close>

fun group_loop :: "message list \<Rightarrow> turn list \<Rightarrow> turn option \<Rightarrow> turn list \<times> turn option" where
  "group_loop [] turns currentTurn = (turns, currentTurn)"
| "group_loop (msg # rest) turns currentTurn =
     (if m_role msg = User then
        group_loop rest
          (case currentTurn of Some t \<Rightarrow> turns @ [t] | None \<Rightarrow> turns)
          (Some \<lparr>user = Some msg, assistants = []\<rparr>)
      else if m_role msg = Assistant \<and> currentTurn \<noteq> None then
        group_loop rest turns
          (map_option (\<lambda>t. t\<lparr>assistants := assistants t @ [msg]\<rparr>) currentTurn)
      else group_loop rest turns currentTurn)"

text \<open>After the loop: \<^verbatim>\<open>if (currentTurn) turns.push(currentTurn); return turns;\<close>\<close>

definition finish_turns :: "turn list \<times> turn option \<Rightarrow> turn list" where
  "finish_turns p = (case p of (turns, Some t) \<Rightarrow> turns @ [t] | (turns, None) \<Rightarrow> turns)"

definition groupMessagesIntoTurns :: "message list \<Rightarrow> turn list" where
  "groupMessagesIntoTurns messages = finish_turns (group_loop messages [] None)"

text \<open>\<^verbatim>\<open>GuideantsChatState.getTurnCount\<close>:
  \<^verbatim>\<open>this.messages.filter(m => m.role === 'User').length\<close>.\<close>

definition getTurnCount :: "message list \<Rightarrow> nat" where
  "getTurnCount messages = length (filter (\<lambda>m. m_role m = User) messages)"

text \<open>The messages a turn holds, user first, and all turns laid end to end.\<close>

definition turn_messages :: "turn \<Rightarrow> message list" where
  "turn_messages t = (case user t of Some u \<Rightarrow> [u] | None \<Rightarrow> []) @ assistants t"

definition turns_flat :: "turn list \<Rightarrow> message list" where
  "turns_flat ts = concat (map turn_messages ts)"

section \<open>Event-stream reading (GuideantsApi.streamAssistantMessage,
  GuideantsChatService.submitToolResults)\<close>

text \<open>
  Both functions hold the same read loop. The decoded text of each chunk is a \<open>string\<close>;
  \<^verbatim>\<open>JSON.parse\<close> is the parameter \<open>parse\<close>, \<open>None\<close> where it throws. The events handed
  to \<^verbatim>\<open>onEvent\<close> are collected in a list, in the order of the calls.
\<close>

text \<open>\<^verbatim>\<open>s.split('\n')\<close>: never empty, the last element is the text after the last
  line feed.\<close>

fun split_nl :: "string \<Rightarrow> string list" where
  "split_nl [] = [[]]"
| "split_nl (ch # cs) =
     (if ch = CHR 0x0A then [] # split_nl cs
      else (case split_nl cs of
              l # ls \<Rightarrow> (ch # l) # ls
            | [] \<Rightarrow> [[ch]]))"

text \<open>\<^verbatim>\<open>s.startsWith(p)\<close>.\<close>

fun startsWith :: "string \<Rightarrow> string \<Rightarrow> bool" where
  "startsWith s [] = True"
| "startsWith [] (p # ps) = False"
| "startsWith (ch # cs) (p # ps) = (ch = p \<and> startsWith cs ps)"

text \<open>The loop state is \<^verbatim>\<open>currentEventType\<close> and the events delivered so far.\<close>

definition process_line ::
  "(string \<Rightarrow> 'j option) \<Rightarrow> string \<times> (string \<times> 'j) list \<Rightarrow> string \<Rightarrow> string \<times> (string \<times> 'j) list" where
  "process_line parse st line =
     (case st of (currentEventType, delivered) \<Rightarrow>
        if startsWith line ''event: '' then (drop 7 line, delivered)
        else if startsWith line ''data: '' then
          (case parse (drop 6 line) of
             Some parsed \<Rightarrow>
               (currentEventType,
                delivered @ [(if currentEventType = [] then ''data'' else currentEventType, parsed)])
           | None \<Rightarrow> (currentEventType, delivered))
        else if line = [] then ([], delivered)
        else (currentEventType, delivered))"

definition process_lines ::
  "(string \<Rightarrow> 'j option) \<Rightarrow> string \<times> (string \<times> 'j) list \<Rightarrow> string list \<Rightarrow> string \<times> (string \<times> 'j) list" where
  "process_lines parse st lines = foldl (process_line parse) st lines"

text \<open>The \<^verbatim>\<open>while (true)\<close> loop over the chunks \<^verbatim>\<open>reader.read()\<close> yields, until
  \<^verbatim>\<open>done\<close>: \<^verbatim>\<open>buffer += chunk; lines = buffer.split('\n'); buffer = lines.pop() || ''\<close>.\<close>

fun read_loop ::
  "(string \<Rightarrow> 'j option) \<Rightarrow> string list \<Rightarrow> string \<Rightarrow> string \<times> (string \<times> 'j) list
     \<Rightarrow> string \<times> string \<times> (string \<times> 'j) list" where
  "read_loop parse [] buffer st = (buffer, st)"
| "read_loop parse (chunk # rest) buffer st =
     (let lines = split_nl (buffer @ chunk)
      in read_loop parse rest (last lines) (process_lines parse st (butlast lines)))"

definition stream_events :: "(string \<Rightarrow> 'j option) \<Rightarrow> string list \<Rightarrow> (string \<times> 'j) list" where
  "stream_events parse chunks = snd (snd (read_loop parse chunks [] ([], [])))"

text \<open>A \<^verbatim>\<open>data:\<close> line whose payload \<^verbatim>\<open>JSON.parse\<close> rejects.\<close>

definition malformed_data_line :: "(string \<Rightarrow> 'j option) \<Rightarrow> string \<Rightarrow> bool" where
  "malformed_data_line parse line = (startsWith line ''data: '' \<and> parse (drop 6 line) = None)"

text \<open>The payload a line delivers: that of a \<^verbatim>\<open>data:\<close> line that parses.\<close>

definition line_payload :: "(string \<Rightarrow> 'j option) \<Rightarrow> string \<Rightarrow> 'j option" where
  "line_payload parse line =
     (if startsWith line ''data: '' then parse (drop 6 line) else None)"

text \<open>The complete lines of a stream: all the text up to its last line feed.\<close>

definition stream_lines :: "string list \<Rightarrow> string list" where
  "stream_lines chunks = butlast (split_nl (concat chunks))"

section \<open>Controller state (GuideantsChatState, GuideantsChatController)\<close>

datatype display_mode = Full | LastTurn

text \<open>What an awaited call can reject with: an \<^verbatim>\<open>AuthenticationError\<close>
  (\<^verbatim>\<open>errorCode\<close>, \<^verbatim>\<open>errorMessage\<close>, \<^verbatim>\<open>requiresAuth\<close>) or any other
  \<^verbatim>\<open>Error\<close>, of which only \<^verbatim>\<open>message\<close> is read.\<close>

datatype error = AuthenticationError string string bool | Error string

text \<open>\<^verbatim>\<open>PublishedGuideConfig\<close>, the properties the controller reads.\<close>

record config =
  cfg_projectId :: string
  cfg_notebookId :: string
  cfg_guideId :: string
  cfg_maxUserMessageLength :: "int option"
  cfg_maxTurns :: "int option"
  cfg_conversationStarters :: "string list option"
  cfg_displayMode :: "display_mode option"
  cfg_commandMode :: "bool option"
  cfg_showTurnNavigation :: "bool option"
  cfg_collapsible :: "bool option"
  cfg_showConversationStarters :: "bool option"
  cfg_showAttachments :: "bool option"

text \<open>An entry of \<^verbatim>\<open>pendingAttachments\<close>: \<^verbatim>\<open>{ file, published }\<close>, of the file only
  its name is read.\<close>

record pending_attachment =
  p_fileName :: string
  p_published :: attachment

text \<open>A requested tool call \<^verbatim>\<open>{ id, function?: { name?, arguments? } }\<close>. The arguments
  are a string or an object, the object kept as its JSON text.\<close>

datatype js_args = ArgString string | ArgObject string

record tool_call =
  tc_id :: string
  tc_name :: "string option"
  tc_arguments :: "js_args option"

text \<open>What a handler is called with, what it resolves to, and what it does: resolve
  to a result or to \<^verbatim>\<open>null\<close>, or throw; \<open>Threw\<close> carries
  \<^verbatim>\<open>err?.message || String(err)\<close>.\<close>

record handler_arg =
  ha_id :: string
  ha_name :: string
  ha_arguments :: js_args

record tool_result =
  toolCallId :: string
  tr_name :: string
  tr_content :: string

datatype handler_outcome = Returned "tool_result option" | Threw string

type_synonym handler = "handler_arg \<Rightarrow> handler_outcome"

text \<open>The payload of a stream event, as far as \<^verbatim>\<open>handleSseEvent\<close> reads it:
  \<^verbatim>\<open>data?.contentDelta\<close>, \<^verbatim>\<open>data?.content\<close>, \<^verbatim>\<open>data?.toolCalls\<close>,
  \<^verbatim>\<open>data?.message\<close>; a property that is absent (or \<^verbatim>\<open>data\<close> itself null) is
  \<open>None\<close>.\<close>

record event_data =
  d_contentDelta :: "string option"
  d_content :: "string option"
  d_toolCalls :: "tool_call list option"
  d_message :: "string option"

record sse_event =
  ev_type :: string
  ev_data :: event_data

text \<open>Everything the controller does to the outside, in order: the custom events it
  dispatches on the host (name and \<^verbatim>\<open>detail\<close>), the view methods it calls, the tool
  handlers it invokes, the stream-event callback, and the requests it sends to the service.
  Scroll-manager calls and writes to the input and banner elements are left out.\<close>

datatype detail =
    NoDetail
  | ErrorDetail error
  | DataDetail event_data
  | TurnNavigation int nat
  | AuthErrorDetail string string bool

datatype effect =
    Dispatch string detail
  | UpdateThread
  | UpdateButtons
  | UpdateCollapseUI
  | RenderAttachmentsQueue
  | RenderEmptyState
  | HandlerInvoked handler_arg
  | StreamEventCallback sse_event
  | StreamRequest string "attachment list"
  | SubmitToolResultsRequest "tool_result list"

text \<open>
  The fields of \<^verbatim>\<open>GuideantsChatState\<close> that the modelled operations touch, the
  controller's own \<^verbatim>\<open>toolRegistry\<close>, whether a \<^verbatim>\<open>streamEventCallback\<close> and a
  \<^verbatim>\<open>contextProvider\<close> are set, and the names of the host element's attributes.
  Three fields are bookkeeping of the model: \<open>trace\<close> (the effects so far), \<open>toolRuns\<close>
  (the \<^verbatim>\<open>handleRegisteredTools\<close> calls started by \<^verbatim>\<open>handleSseEvent\<close>, which run
  asynchronously) and \<open>steps\<close> (how many answers of the environment have been consumed).
\<close>

record controller =
  pubId :: "string option"
  conversationId :: "string option"
  projectId :: "string option"
  notebookId :: "string option"
  guideId :: "string option"
  publishedGuideConfig :: "config option"
  conversationStarters :: "string list"
  publishedGuideAvatarUrl :: "string option"
  conversationContext :: "string option"
  messages :: "message list"
  authError :: "(string \<times> string) option"
  inlineError :: "string option"
  isStreaming :: bool
  streamingAssistantMessageId :: "string option"
  sanitizedMessageContent :: "string option"
  displayMode :: display_mode
  enableTurnNavigation :: bool
  activeTurnIndex :: "int option"
  collapsible :: bool
  isCollapsed :: bool
  commandMode :: bool
  conversationStartersEnabled :: bool
  attachmentsEnabled :: bool
  pendingAttachments :: "pending_attachment list"
  toolRegistry :: "string \<rightharpoonup> handler"
  streamEventCallback :: bool
  contextProvider :: bool
  hostAttributes :: "string set"
  trace :: "effect list"
  toolRuns :: "tool_call list list"
  steps :: nat

text \<open>One reading of the clock: \<open>now\<close> is the decimal text of \<^verbatim>\<open>Date.now()\<close>, \<open>iso\<close> is
  \<^verbatim>\<open>new Date().toISOString()\<close>.\<close>

record clock =
  now :: string
  iso :: string

text \<open>
  The environment: what each awaited call answers, indexed by how many answers the
  controller has consumed before (\<open>steps\<close>). A service call answers \<open>Inl\<close> when it rejects.
  A stream answers the events its read loop hands to \<^verbatim>\<open>onEvent\<close>, each with the clock at
  its arrival, and then the error the call rejects with, if any. \<open>stringifyError\<close> is
  \<^verbatim>\<open>JSON.stringify({ error: msg })\<close>.
\<close>

record env =
  fetchConfig :: "nat \<Rightarrow> error + config"
  fetchAvatarUrl :: "nat \<Rightarrow> string option"
  contextProviderResult :: "nat \<Rightarrow> error + string option"
  startConversation :: "nat \<Rightarrow> error + string"
  fetchHistory :: "nat \<Rightarrow> error + message list"
  streamResponse :: "nat \<Rightarrow> (clock \<times> sse_event) list \<times> error option"
  submitToolResults :: "nat \<Rightarrow> (clock \<times> sse_event) list \<times> error option"
  clockAt :: "nat \<Rightarrow> clock"
  stringifyError :: "string \<Rightarrow> string"

text \<open>JavaScript truthiness of a \<^verbatim>\<open>string | null\<close>.\<close>

definition truthy :: "string option \<Rightarrow> bool" where
  "truthy v = (case v of None \<Rightarrow> False | Some s \<Rightarrow> s \<noteq> [])"

definition emit :: "effect \<Rightarrow> controller \<Rightarrow> controller" where
  "emit e c = c\<lparr>trace := trace c @ [e]\<rparr>"

definition tick :: "controller \<Rightarrow> controller" where
  "tick c = c\<lparr>steps := Suc (steps c)\<rparr>"

text \<open>\<^verbatim>\<open>String.prototype.trim\<close> on the ASCII white space.\<close>

definition is_space :: "char \<Rightarrow> bool" where
  "is_space ch = (ch \<in> {CHR '' '', CHR 0x09, CHR 0x0A, CHR 0x0B, CHR 0x0C, CHR 0x0D})"

definition trim :: "string \<Rightarrow> string" where
  "trim s = rev (dropWhile is_space (rev (dropWhile is_space s)))"

text \<open>\<^verbatim>\<open>Array.prototype.join\<close>.\<close>

fun join :: "string \<Rightarrow> string list \<Rightarrow> string" where
  "join sep [] = []"
| "join sep [x] = x"
| "join sep (x # y # ys) = x @ sep @ join sep (y # ys)"

definition setInlineError :: "string option \<Rightarrow> controller \<Rightarrow> controller" where
  "setInlineError msg c = c\<lparr>inlineError := msg\<rparr>"

definition showError :: "string \<Rightarrow> controller \<Rightarrow> controller" where
  "showError msg c = setInlineError (Some msg) c"

definition handleAuthError :: "string \<Rightarrow> string \<Rightarrow> bool \<Rightarrow> controller \<Rightarrow> controller" where
  "handleAuthError code msg requiresAuth c =
     emit (Dispatch ''wf-auth-error'' (AuthErrorDetail code msg requiresAuth))
       (emit UpdateThread
          (setInlineError (Some msg) (c\<lparr>authError := Some (code, msg)\<rparr>)))"

section \<open>Stream event interpreter (GuideantsChatController.handleSseEvent)\<close>

text \<open>The empty placeholder assistant message that several operations push, with
  \<^verbatim>\<open>streamingAssistantMessageId\<close> set to its id.\<close>

definition placeholder :: "clock \<Rightarrow> message" where
  "placeholder clk =
     \<lparr>m_id = ''temp-assistant-'' @ now clk, m_role = Assistant, m_content = [],
      m_created = iso clk, m_isEdited = False, m_attachments = None\<rparr>"

definition push_placeholder :: "clock \<Rightarrow> controller \<Rightarrow> controller" where
  "push_placeholder clk c =
     c\<lparr>messages := messages c @ [placeholder clk],
       streamingAssistantMessageId := Some (m_id (placeholder clk))\<rparr>"

text \<open>\<^verbatim>\<open>const msg = messages.find(p); if (msg) { msg.content = ... }\<close>: the first
  message that satisfies \<open>p\<close> is changed in place; \<open>None\<close> when there is none.\<close>

fun mutate_found :: "(message \<Rightarrow> bool) \<Rightarrow> (message \<Rightarrow> message) \<Rightarrow> message list \<Rightarrow> message list option" where
  "mutate_found p f [] = None"
| "mutate_found p f (m # ms) =
     (if p m then Some (f m # ms) else map_option ((#) m) (mutate_found p f ms))"

definition set_streaming_content :: "(string \<Rightarrow> string) \<Rightarrow> controller \<Rightarrow> controller" where
  "set_streaming_content f c =
     (case mutate_found (\<lambda>m. Some (m_id m) = streamingAssistantMessageId c)
             (\<lambda>m. m\<lparr>m_content := f (m_content m)\<rparr>) (messages c) of
        Some ms \<Rightarrow> emit UpdateThread (c\<lparr>messages := ms\<rparr>)
      | None \<Rightarrow> c)"

text \<open>The names in \<^verbatim>\<open>toolCalls\<close> that are truthy and have no entry in the registry,
  in order (the loop that fills \<^verbatim>\<open>missingHandlers\<close>).\<close>

fun missingHandlers :: "(string \<rightharpoonup> handler) \<Rightarrow> tool_call list \<Rightarrow> string list" where
  "missingHandlers reg [] = []"
| "missingHandlers reg (call # calls) =
     (if truthy (tc_name call) \<and> reg (the (tc_name call)) = None
      then the (tc_name call) # missingHandlers reg calls
      else missingHandlers reg calls)"

definition or_empty :: "string option \<Rightarrow> string" where
  "or_empty v = (case v of Some s \<Rightarrow> s | None \<Rightarrow> [])"

definition handle_token :: "clock \<Rightarrow> event_data \<Rightarrow> controller \<Rightarrow> controller" where
  "handle_token clk d c =
     (let delta = or_empty (d_contentDelta d);
          c1 = (if \<not> truthy (streamingAssistantMessageId c)
                then emit UpdateThread (push_placeholder clk (c\<lparr>isStreaming := True\<rparr>))
                else c)
      in if delta \<noteq> [] then set_streaming_content (\<lambda>old. old @ delta) c1 else c1)"

definition handle_assistant_message :: "clock \<Rightarrow> event_data \<Rightarrow> controller \<Rightarrow> controller" where
  "handle_assistant_message clk d c =
     (let content = or_empty (d_content d);
          c1 = (if \<not> truthy (streamingAssistantMessageId c)
                then push_placeholder clk (c\<lparr>isStreaming := True\<rparr>)
                else c)
      in if content \<noteq> [] then set_streaming_content (\<lambda>old. content) c1 else c1)"

definition handle_external_tool_call :: "sse_event \<Rightarrow> controller \<Rightarrow> controller" where
  "handle_external_tool_call evt c =
     (let c1 = emit UpdateButtons (c\<lparr>isStreaming := False\<rparr>);
          toolCalls = (case d_toolCalls (ev_data evt) of Some tcs \<Rightarrow> tcs | None \<Rightarrow> [])
      in if toolCalls = [] then c1
         else
           let missing = missingHandlers (toolRegistry c1) toolCalls
           in if missing \<noteq> [] then
                let msg = ''No handler registered for tool(s): '' @ join '', '' missing
                in emit (Dispatch ''wf-error'' (ErrorDetail (Error msg))) (showError msg c1)
              else
                let c2 = c1\<lparr>toolRuns := toolRuns c1 @ [toolCalls]\<rparr>
                in if streamEventCallback c2 then emit (StreamEventCallback evt) c2 else c2)"

definition handle_message :: "clock \<Rightarrow> event_data \<Rightarrow> controller \<Rightarrow> controller" where
  "handle_message clk d c =
     (let content = or_empty (d_content d)
      in if content \<noteq> [] then
           let c1 = c\<lparr>sanitizedMessageContent := Some content\<rparr>;
               c2 = (if \<not> truthy (streamingAssistantMessageId c1)
                     then push_placeholder clk c1 else c1)
           in set_streaming_content (\<lambda>old. content) c2
         else c)"

definition handle_complete :: "controller \<Rightarrow> controller" where
  "handle_complete c =
     emit UpdateThread
       (emit UpdateButtons
          (c\<lparr>isStreaming := False, streamingAssistantMessageId := None,
             sanitizedMessageContent := None\<rparr>))"

definition handleSseEvent :: "clock \<Rightarrow> sse_event \<Rightarrow> controller \<Rightarrow> controller" where
  "handleSseEvent clk evt c =
     (let c1 =
        (if ev_type evt = ''token'' then handle_token clk (ev_data evt) c
         else if ev_type evt = ''assistant_message'' then handle_assistant_message clk (ev_data evt) c
         else if ev_type evt = ''external_tool_call'' then handle_external_tool_call evt c
         else if ev_type evt = ''message'' then handle_message clk (ev_data evt) c
         else if ev_type evt = ''error'' then
           showError (if truthy (d_message (ev_data evt)) then the (d_message (ev_data evt))
                      else ''stream error'') c
         else if ev_type evt = ''complete'' \<or> ev_type evt = ''cancelled'' then handle_complete c
         else c)
      in if ev_type evt \<noteq> ''external_tool_call''
         then emit (Dispatch (''wf-'' @ ev_type evt) (DataDetail (ev_data evt))) c1
         else c1)"

text \<open>\<^verbatim>\<open>ingestStreamEvent(eventType, data)\<close> is \<^verbatim>\<open>handleSseEvent({ type, data })\<close>.\<close>

definition ingestStreamEvent :: "clock \<Rightarrow> string \<Rightarrow> event_data \<Rightarrow> controller \<Rightarrow> controller" where
  "ingestStreamEvent clk eventType d c = handleSseEvent clk \<lparr>ev_type = eventType, ev_data = d\<rparr> c"

text \<open>The events of one stream, handled in arrival order.\<close>

fun handle_events :: "(clock \<times> sse_event) list \<Rightarrow> controller \<Rightarrow> controller" where
  "handle_events [] c = c"
| "handle_events ((clk, evt) # rest) c = handle_events rest (handleSseEvent clk evt c)"

section \<open>Turn navigation\<close>

definition goToTurn :: "int \<Rightarrow> controller \<Rightarrow> controller" where
  "goToTurn turnIndex c =
     (if displayMode c \<noteq> LastTurn then c
      else
        let maxTurn = getTurnCount (messages c)
        in if turnIndex < 1 \<or> turnIndex > int maxTurn then c
           else emit (Dispatch ''wf-turn-navigation'' (TurnNavigation turnIndex maxTurn))
                  (emit UpdateThread (c\<lparr>activeTurnIndex := Some turnIndex\<rparr>)))"

definition goToNextTurn :: "controller \<Rightarrow> controller" where
  "goToNextTurn c =
     (if displayMode c \<noteq> LastTurn then c
      else
        let maxTurn = int (getTurnCount (messages c));
            currentTurn = (case activeTurnIndex c of Some i \<Rightarrow> i | None \<Rightarrow> maxTurn)
        in if currentTurn < maxTurn then goToTurn (currentTurn + 1) c else c)"

definition goToPreviousTurn :: "controller \<Rightarrow> controller" where
  "goToPreviousTurn c =
     (if displayMode c \<noteq> LastTurn then c
      else
        let currentTurn = (case activeTurnIndex c of Some i \<Rightarrow> i
                           | None \<Rightarrow> int (getTurnCount (messages c)))
        in if currentTurn > 1 then goToTurn (currentTurn - 1) c else c)"

section \<open>Configuration and conversation loading\<close>

definition initializeConversationStartersFromConfig :: "controller \<Rightarrow> controller" where
  "initializeConversationStartersFromConfig c =
     (if conversationStarters c \<noteq> [] then c
      else case publishedGuideConfig c of
             None \<Rightarrow> c
           | Some cfg \<Rightarrow>
               (case cfg_conversationStarters cfg of
                  None \<Rightarrow> c
                | Some starters \<Rightarrow>
                    if starters \<noteq> [] then c\<lparr>conversationStarters := starters\<rparr> else c))"

text \<open>One statement of \<^verbatim>\<open>applyConfigToComponentProps\<close>:
  \<^verbatim>\<open>if (!this.host.hasAttribute(a) && cfg.x !== undefined) this.state.y = cfg.x\<close>.\<close>

definition apply_unless_attribute ::
  "string \<Rightarrow> 'a option \<Rightarrow> ('a \<Rightarrow> controller \<Rightarrow> controller) \<Rightarrow> controller \<Rightarrow> controller" where
  "apply_unless_attribute a v assign c =
     (case v of
        Some x \<Rightarrow> if a \<notin> hostAttributes c then assign x c else c
      | None \<Rightarrow> c)"

definition applyConfigToComponentProps :: "controller \<Rightarrow> controller" where
  "applyConfigToComponentProps c =
     (case publishedGuideConfig c of
        None \<Rightarrow> c
      | Some cfg \<Rightarrow>
          apply_unless_attribute ''command-mode'' (cfg_commandMode cfg)
            (\<lambda>b s. emit UpdateButtons (s\<lparr>commandMode := b\<rparr>))
          (apply_unless_attribute ''attachments-enabled'' (cfg_showAttachments cfg)
            (\<lambda>b s. s\<lparr>attachmentsEnabled := b\<rparr>)
          (apply_unless_attribute ''conversation-starters-enabled''
            (cfg_showConversationStarters cfg)
            (\<lambda>b s. s\<lparr>conversationStartersEnabled := b\<rparr>)
          (apply_unless_attribute ''collapsible'' (cfg_collapsible cfg)
            (\<lambda>b s. s\<lparr>collapsible := b\<rparr>)
          (apply_unless_attribute ''enable-turn-navigation'' (cfg_showTurnNavigation cfg)
            (\<lambda>b s. s\<lparr>enableTurnNavigation := b\<rparr>)
          (apply_unless_attribute ''display-mode'' (cfg_displayMode cfg)
            (\<lambda>dm s. s\<lparr>displayMode := dm\<rparr>) c))))))"

definition renderFullState :: "controller \<Rightarrow> controller" where
  "renderFullState c =
     emit UpdateCollapseUI (emit RenderEmptyState (emit UpdateThread (emit UpdateButtons c)))"

text \<open>\<^verbatim>\<open>initialize\<close>: its \<^verbatim>\<open>try\<close> catches every failure of the two fetches, so it
  never rejects. \<^verbatim>\<open>fetchAvatarUrl\<close> catches its own failures and answers \<^verbatim>\<open>null\<close>.\<close>

definition initialize :: "env \<Rightarrow> controller \<Rightarrow> controller" where
  "initialize e c =
     (if truthy (projectId c) \<and> truthy (notebookId c) \<and> truthy (guideId c)
         \<and> publishedGuideConfig c \<noteq> None
      then renderFullState (applyConfigToComponentProps c)
      else if \<not> truthy (pubId c) then c
      else
        case fetchConfig e (steps c) of
          Inl err \<Rightarrow> tick c
        | Inr cfg \<Rightarrow>
            let c1 = tick (c\<lparr>publishedGuideConfig := Some cfg\<rparr>);
                avatarUrl = fetchAvatarUrl e (steps c1);
                c2 = tick (c1\<lparr>publishedGuideAvatarUrl :=
                                 (if truthy avatarUrl then avatarUrl else None)\<rparr>);
                c3 = c2\<lparr>projectId := Some (cfg_projectId cfg),
                         notebookId := Some (cfg_notebookId cfg),
                         guideId := Some (cfg_guideId cfg)\<rparr>
            in renderFullState
                 (applyConfigToComponentProps (initializeConversationStartersFromConfig c3)))"

text \<open>An awaited operation of the controller answers the error it rejects with, if any,
  and the controller as it stands then.\<close>

type_synonym outcome = "error option \<times> controller"

definition ensureResolvedIds :: "env \<Rightarrow> controller \<Rightarrow> outcome" where
  "ensureResolvedIds e c =
     (if truthy (projectId c) \<and> truthy (notebookId c) \<and> truthy (guideId c) then (None, c)
      else
        let c1 = initialize e c
        in if \<not> truthy (projectId c1) \<or> \<not> truthy (notebookId c1)
           then (Some (Error ''Missing guide configuration''), c1)
           else (None, c1))"

text \<open>The loop of \<^verbatim>\<open>loadConversation\<close> that finds the last assistant message, and the
  assignment to its content.\<close>

definition override_last_assistant :: "string \<Rightarrow> message list \<Rightarrow> message list" where
  "override_last_assistant content loaded =
     (case mutate_found (\<lambda>m. m_role m = Assistant) (\<lambda>m. m\<lparr>m_content := content\<rparr>) (rev loaded) of
        Some r \<Rightarrow> rev r
      | None \<Rightarrow> loaded)"

definition loadConversation :: "env \<Rightarrow> controller \<Rightarrow> outcome" where
  "loadConversation e c =
     (if \<not> truthy (conversationId c) then (None, c)
      else
        case ensureResolvedIds e c of
          (Some err, c1) \<Rightarrow> (Some err, c1)
        | (None, c1) \<Rightarrow>
            (case fetchHistory e (steps c1) of
               Inl err \<Rightarrow> (Some err, tick c1)
             | Inr loadedMessages \<Rightarrow>
                 let c2 = tick c1;
                     c3 = (if truthy (sanitizedMessageContent c2)
                           then c2\<lparr>messages :=
                                     override_last_assistant (the (sanitizedMessageContent c2))
                                       loadedMessages,
                                   sanitizedMessageContent := None\<rparr>
                           else c2\<lparr>messages := loadedMessages\<rparr>)
                 in (None, if \<not> isStreaming c3 then emit UpdateThread c3 else c3)))"

definition capture_context :: "env \<Rightarrow> controller \<Rightarrow> controller" where
  "capture_context e c =
     (if contextProvider c \<and> conversationContext c = None then
        (case contextProviderResult e (steps c) of
           Inl err \<Rightarrow> tick c
         | Inr r \<Rightarrow>
             if truthy r \<and> trim (the r) \<noteq> []
             then tick (c\<lparr>conversationContext := Some (trim (the r))\<rparr>)
             else tick c)
      else c)"

definition ensureConversation :: "env \<Rightarrow> controller \<Rightarrow> outcome" where
  "ensureConversation e c =
     (if truthy (conversationId c) then loadConversation e c
      else
        case ensureResolvedIds e c of
          (Some err, c1) \<Rightarrow> (Some err, c1)
        | (None, c1) \<Rightarrow>
            let c2 = capture_context e c1
            in (case startConversation e (steps c2) of
                  Inl err \<Rightarrow> (Some err, tick c2)
                | Inr cid \<Rightarrow>
                    let c3 = tick (c2\<lparr>conversationId := Some cid\<rparr>)
                    in if \<not> truthy (conversationId c3)
                       then (Some (Error ''conversation id missing from start response''), c3)
                       else loadConversation e c3))"


definition expand :: "controller \<Rightarrow> controller" where
  "expand c =
     (if \<not> collapsible c then c
      else emit (Dispatch ''wf-expanded'' NoDetail)
             (emit UpdateThread (emit UpdateCollapseUI (c\<lparr>isCollapsed := False\<rparr>))))"

definition collapse :: "controller \<Rightarrow> controller" where
  "collapse c =
     (if \<not> collapsible c then c
      else emit (Dispatch ''wf-collapsed'' NoDetail)
             (emit UpdateThread (emit UpdateCollapseUI (c\<lparr>isCollapsed := True\<rparr>))))"

definition setDisplayMode :: "display_mode \<Rightarrow> controller \<Rightarrow> controller" where
  "setDisplayMode mode c =
     emit UpdateThread
       (c\<lparr>displayMode := mode, hostAttributes := insert ''display-mode'' (hostAttributes c)\<rparr>)"

definition registerTool :: "string \<Rightarrow> handler \<Rightarrow> controller \<Rightarrow> controller" where
  "registerTool toolName h c = c\<lparr>toolRegistry := (toolRegistry c)(toolName \<mapsto> h)\<rparr>"

section \<open>Tool-call coordinator\<close>






text \<open>The \<^verbatim>\<open>finally\<close> block, the same in \<^verbatim>\<open>submitExternalToolResults\<close> and
  \<^verbatim>\<open>performSend\<close>.\<close>

definition stream_finally :: "controller \<Rightarrow> controller" where
  "stream_finally c =
     emit UpdateThread
       (emit UpdateButtons
          (c\<lparr>isStreaming := False, streamingAssistantMessageId := None,
             sanitizedMessageContent := None\<rparr>))"

text \<open>The statements before the \<^verbatim>\<open>try\<close>, the same in both functions:
  \<^verbatim>\<open>isStreaming = true\<close>, the buttons are updated, \<^verbatim>\<open>wf-stream-start\<close> is dispatched.\<close>

definition stream_start :: "controller \<Rightarrow> controller" where
  "stream_start c =
     emit (Dispatch ''wf-stream-start'' NoDetail) (emit UpdateButtons (c\<lparr>isStreaming := True\<rparr>))"





section \<open>Sending a message (GuideantsChatController.performSend)\<close>

definition normalizeAttachments :: "attachment list option \<Rightarrow> attachment list option" where
  "normalizeAttachments list =
     (case list of
        None \<Rightarrow> None
      | Some atts \<Rightarrow>
          let normalized =
                map (\<lambda>att. \<lparr>notebookFileId = trim (notebookFileId att),
                            uploadType = uploadType att, fileName = None\<rparr>)
                  (filter (\<lambda>att. trim (notebookFileId att) \<noteq> [] \<and>
                       uploadType att \<in> {''ImageFile'', ''ImageUrl'', ''AudioFile'',
                                          ''TextFile'', ''SandboxFile''}) atts)
          in if normalized \<noteq> [] then Some normalized else None)"

definition is_temp :: "message \<Rightarrow> bool" where
  "is_temp m = startsWith (m_id m) ''temp-''"

definition streamMessage :: "env \<Rightarrow> string \<Rightarrow> attachment list \<Rightarrow> controller \<Rightarrow> outcome" where
  "streamMessage e content atts c =
     (case ensureResolvedIds e c of
        (Some err, c1) \<Rightarrow> (Some err, c1)
      | (None, c1) \<Rightarrow>
          let c2 = emit (StreamRequest content atts) c1;
              answer = streamResponse e (steps c2);
              c3 = handle_events (fst answer) (tick c2)
          in (case snd answer of
                Some err \<Rightarrow> (Some err, c3)
              | None \<Rightarrow>
                  (case loadConversation e c3 of
                     (Some err, c4) \<Rightarrow> (Some err, c4)
                   | (None, c4) \<Rightarrow> (None, emit (Dispatch ''wf-complete'' NoDetail) c4))))"

text \<open>The two optimistic messages of a send, pushed before the stream is requested.\<close>

definition optimistic_append :: "env \<Rightarrow> string \<Rightarrow> attachment list \<Rightarrow> controller \<Rightarrow> controller" where
  "optimistic_append e content atts c =
     (let userMessage =
            \<lparr>m_id = ''temp-user-'' @ now (clockAt e (steps c)), m_role = User,
             m_content = content, m_created = iso (clockAt e (steps c)),
             m_isEdited = False, m_attachments = Some atts\<rparr>;
          c1 = tick (c\<lparr>messages := messages c @ [userMessage]\<rparr>);
          c2 = (if displayMode c1 = LastTurn then c1\<lparr>activeTurnIndex := None\<rparr> else c1);
          c3 = push_placeholder (clockAt e (steps c2)) (tick c2)
      in emit UpdateThread c3)"

text \<open>The \<^verbatim>\<open>try\<close>, \<^verbatim>\<open>catch\<close> blocks of \<^verbatim>\<open>performSend\<close>.\<close>

definition send_try :: "env \<Rightarrow> string \<Rightarrow> attachment list \<Rightarrow> controller \<Rightarrow> outcome" where
  "send_try e content atts c =
     (case ensureConversation e c of
        (Some err, c1) \<Rightarrow> (Some err, c1)
      | (None, c1) \<Rightarrow> streamMessage e content atts (optimistic_append e content atts c1))"

definition send_catch :: "pending_attachment list \<Rightarrow> error \<Rightarrow> controller \<Rightarrow> controller" where
  "send_catch pending err c =
     (let c1 = c\<lparr>messages := filter (\<lambda>m. \<not> is_temp m) (messages c)\<rparr>;
          c2 = (if pending \<noteq> []
                then emit RenderAttachmentsQueue (c1\<lparr>pendingAttachments := pending\<rparr>)
                else c1)
      in emit UpdateThread
           (case err of
              AuthenticationError code msg requiresAuth \<Rightarrow>
                handleAuthError code msg requiresAuth c2
            | Error msg \<Rightarrow>
                emit (Dispatch ''wf-error'' (ErrorDetail err))
                  (showError (if msg \<noteq> [] then msg else ''Request failed'') c2)))"

text \<open>A number in a template string: the decimal digits of an integer.\<close>

fun show_nat :: "nat \<Rightarrow> string" where
  "show_nat n =
     (if n < 10 then [''0123456789'' ! n]
      else show_nat (n div 10) @ [''0123456789'' ! (n mod 10)])"

declare show_nat.simps [simp del]

definition show_int :: "int \<Rightarrow> string" where
  "show_int i = (if i < 0 then ''-'' @ show_nat (nat (- i)) else show_nat (nat i))"

text \<open>The two limits of the published guide, each skipped when the limit is absent or
  falsy (0).\<close>

definition maxUserMessageLength :: "controller \<Rightarrow> int option" where
  "maxUserMessageLength c =
     (case publishedGuideConfig c of None \<Rightarrow> None | Some cfg \<Rightarrow> cfg_maxUserMessageLength cfg)"

definition maxTurns :: "controller \<Rightarrow> int option" where
  "maxTurns c = (case publishedGuideConfig c of None \<Rightarrow> None | Some cfg \<Rightarrow> cfg_maxTurns cfg)"

definition exceeds_max_length :: "controller \<Rightarrow> string \<Rightarrow> bool" where
  "exceeds_max_length c content =
     (case maxUserMessageLength c of
        None \<Rightarrow> False
      | Some l \<Rightarrow> l \<noteq> 0 \<and> int (length content) > l)"

definition reached_max_turns :: "controller \<Rightarrow> bool" where
  "reached_max_turns c =
     (case maxTurns c of
        None \<Rightarrow> False
      | Some n \<Rightarrow> n \<noteq> 0 \<and> int (length (filter (\<lambda>m. m_role m = User) (messages c))) \<ge> n)"

text \<open>\<^verbatim>\<open>allAttachments\<close>: the normalized attachments of the call, then the pending
  ones with their file names.\<close>

definition all_attachments ::
  "attachment list option \<Rightarrow> pending_attachment list \<Rightarrow> attachment list" where
  "all_attachments normalizedAttachments pending =
     (case normalizedAttachments of Some atts \<Rightarrow> atts | None \<Rightarrow> []) @
     map (\<lambda>p. (p_published p)\<lparr>fileName := Some (p_fileName p)\<rparr>) pending"

text \<open>\<^verbatim>\<open>performSend\<close> from the point where the ids are resolved: the pending attachments
  are taken, the two limits are checked, and the stream is run.\<close>

definition send_resolved ::
  "env \<Rightarrow> string \<Rightarrow> attachment list option \<Rightarrow> controller \<Rightarrow> controller" where
  "send_resolved e content normalizedAttachments c =
     (let pending = pendingAttachments c;
          c1 = emit RenderAttachmentsQueue (c\<lparr>pendingAttachments := []\<rparr>);
          allAttachments = all_attachments normalizedAttachments pending
      in if exceeds_max_length c1 content then
           emit RenderAttachmentsQueue
             ((showError (''Message exceeds maximum length of ''
                            @ show_int (the (maxUserMessageLength c1)) @ '' characters'') c1)
                \<lparr>pendingAttachments := pending\<rparr>)
         else if reached_max_turns c1 then
           showError (''This conversation has reached the maximum of ''
                        @ show_int (the (maxTurns c1)) @ '' turns'') c1
         else
           stream_finally
             (case send_try e content allAttachments (stream_start c1) of
                (None, c3) \<Rightarrow> c3
              | (Some err, c3) \<Rightarrow> send_catch pending err c3))"

definition performSend ::
  "env \<Rightarrow> string \<Rightarrow> attachment list option \<Rightarrow> controller \<Rightarrow> controller" where
  "performSend e content attachments c =
     (if \<not> truthy (pubId c) then showError ''Missing pub-id attribute'' c
      else
        let normalizedAttachments = normalizeAttachments attachments;
            c1 = (if collapsible c \<and> isCollapsed c then expand c else c);
            c2 = (if commandMode c1
                  then emit UpdateThread
                         (c1\<lparr>conversationId := None, conversationContext := None,
                             messages := [], authError := None, activeTurnIndex := None\<rparr>)
                  else c1)
        in case ensureResolvedIds e c2 of
             (Some err, c3) \<Rightarrow>
               (case err of
                  AuthenticationError code msg requiresAuth \<Rightarrow>
                    handleAuthError code msg requiresAuth c3
                | Error msg \<Rightarrow>
                    showError (if msg \<noteq> [] then msg
                               else ''Failed to load published guide configuration'') c3)
           | (None, c3) \<Rightarrow> send_resolved e content normalizedAttachments c3)"

section \<open>Predicates used in the properties\<close>

text \<open>The part of the controller that resolving the guide configuration (\<^verbatim>\<open>initialize\<close>,
  \<^verbatim>\<open>ensureResolvedIds\<close>) never writes.\<close>

definition session_part where
  "session_part c =
     (pubId c, conversationId c, conversationContext c, messages c, authError c,
      inlineError c, isStreaming c, streamingAssistantMessageId c,
      sanitizedMessageContent c, activeTurnIndex c, isCollapsed c, pendingAttachments c,
      toolRegistry c, streamEventCallback c, contextProvider c, hostAttributes c,
      toolRuns c)"


text \<open>The streaming message id, when set, is one of the controller's temporary ids.\<close>

definition slot_temp :: "controller \<Rightarrow> bool" where
  "slot_temp c =
     (case streamingAssistantMessageId c of None \<Rightarrow> True | Some i \<Rightarrow> startsWith i ''temp-'')"

text \<open>The tool-result submissions among the effects, in order.\<close>

fun submissions :: "effect list \<Rightarrow> tool_result list list" where
  "submissions [] = []"
| "submissions (SubmitToolResultsRequest rs # es) = rs # submissions es"
| "submissions (e # es) = submissions es"

text \<open>The handler invocations among the effects, in order.\<close>

fun invocations :: "effect list \<Rightarrow> handler_arg list" where
  "invocations [] = []"
| "invocations (HandlerInvoked a # es) = a # invocations es"
| "invocations (e # es) = invocations es"




text \<open>The custom events among the effects, in order.\<close>

fun dispatches :: "effect list \<Rightarrow> (string \<times> detail) list" where
  "dispatches [] = []"
| "dispatches (Dispatch name d # es) = (name, d) # dispatches es"
| "dispatches (e # es) = dispatches es"

section \<open>Example values\<close>

definition mk_msg :: "string \<Rightarrow> role \<Rightarrow> string \<Rightarrow> message" where
  "mk_msg i r c =
     \<lparr>m_id = i, m_role = r, m_content = c, m_created = ''2024-01-01T00:00:00.000Z'',
      m_isEdited = False, m_attachments = None\<rparr>"

text \<open>A freshly constructed \<^verbatim>\<open>GuideantsChatState\<close> and controller.\<close>

definition initial :: controller where
  "initial =
     \<lparr>pubId = None, conversationId = None, projectId = None, notebookId = None, guideId = None,
      publishedGuideConfig = None, conversationStarters = [], publishedGuideAvatarUrl = None,
      conversationContext = None, messages = [], authError = None, inlineError = None,
      isStreaming = False, streamingAssistantMessageId = None, sanitizedMessageContent = None,
      displayMode = Full, enableTurnNavigation = False, activeTurnIndex = None,
      collapsible = False, isCollapsed = False, commandMode = False,
      conversationStartersEnabled = False, attachmentsEnabled = False, pendingAttachments = [],
      toolRegistry = Map.empty, streamEventCallback = False, contextProvider = False,
      hostAttributes = {}, trace = [], toolRuns = [], steps = 0\<rparr>"

text \<open>A controller whose guide is resolved and whose conversation is started.\<close>

definition resolved :: controller where
  "resolved =
     initial\<lparr>pubId := Some ''pub'', projectId := Some ''p'', notebookId := Some ''n'',
             guideId := Some ''g'', conversationId := Some ''c1''\<rparr>"

definition no_data :: event_data where
  "no_data = \<lparr>d_contentDelta = None, d_content = None, d_toolCalls = None, d_message = None\<rparr>"

definition token :: "string \<Rightarrow> sse_event" where
  "token delta = \<lparr>ev_type = ''token'', ev_data = no_data\<lparr>d_contentDelta := Some delta\<rparr>\<rparr>"


definition external_tool_call :: "tool_call list \<Rightarrow> sse_event" where
  "external_tool_call calls =
     \<lparr>ev_type = ''external_tool_call'', ev_data = no_data\<lparr>d_toolCalls := Some calls\<rparr>\<rparr>"

definition clock0 :: clock where
  "clock0 = \<lparr>now = ''1700000000000'', iso = ''2023-11-14T22:13:20.000Z''\<rparr>"

text \<open>A stand-in for \<^verbatim>\<open>JSON.parse\<close> on the payloads of the example stream below: the
  texts \<^verbatim>\<open>{}\<close> and \<^verbatim>\<open>[1]\<close> parse, anything else is rejected.\<close>

definition toy_parse :: "string \<Rightarrow> string option" where
  "toy_parse s = (if s = ''{}'' \<or> s = ''[1]'' then Some s else None)"

definition example_chunks :: "string list" where
  "example_chunks =
     [''event: token\<newline>data: {}\<newline>\<newline>da'',
      ''ta: oops\<newline>'', ''\<newline>data: [1]\<newline>\<newline>'']"

text \<open>Two tool handlers, one that resolves to a result and one that throws, and two
  requested calls.\<close>

definition echo_handler :: handler where
  "echo_handler a = Returned (Some \<lparr>toolCallId = ha_id a, tr_name = ha_name a, tr_content = ''ok''\<rparr>)"


definition call_alpha :: tool_call where
  "call_alpha = \<lparr>tc_id = ''call-1'', tc_name = Some ''alpha'', tc_arguments = None\<rparr>"

definition call_beta :: tool_call where
  "call_beta = \<lparr>tc_id = ''call-2'', tc_name = Some ''beta'', tc_arguments = None\<rparr>"

definition call_unnamed :: tool_call where
  "call_unnamed = \<lparr>tc_id = ''call-3'', tc_name = Some [], tc_arguments = None\<rparr>"

text \<open>A controller in the middle of a send: streaming into a placeholder message.\<close>

definition mid_stream :: controller where
  "mid_stream =
     resolved\<lparr>messages := [mk_msg ''temp-user-1'' User ''Hello'',
                             mk_msg ''temp-assistant-1'' Assistant ''''],
              isStreaming := True,
              streamingAssistantMessageId := Some ''temp-assistant-1''\<rparr>"

text \<open>An environment for the examples: the conversation exists and is empty on the server,
  streams deliver nothing, the clock stands still. \<open>stringifyError\<close> is written for
  messages that need no escaping.\<close>

definition env0 :: env where
  "env0 =
     \<lparr>fetchConfig = (\<lambda>_. Inl (Error ''offline'')),
      fetchAvatarUrl = (\<lambda>_. None),
      contextProviderResult = (\<lambda>_. Inr None),
      startConversation = (\<lambda>_. Inr ''c1''),
      fetchHistory = (\<lambda>_. Inr []),
      streamResponse = (\<lambda>_. ([], None)),
      submitToolResults = (\<lambda>_. ([], None)),
      clockAt = (\<lambda>_. clock0),
      stringifyError = (\<lambda>msg. ''{'' @ [CHR 0x22] @ ''error'' @ [CHR 0x22] @ '':''
                                @ [CHR 0x22] @ msg @ [CHR 0x22] @ ''}'')\<rparr>"




text \<open>A published guide that allows one turn, and a controller that has used it.\<close>

definition one_turn_config :: config where
  "one_turn_config =
     \<lparr>cfg_projectId = ''p'', cfg_notebookId = ''n'', cfg_guideId = ''g'',
      cfg_maxUserMessageLength = None, cfg_maxTurns = Some 1,
      cfg_conversationStarters = None, cfg_displayMode = None, cfg_commandMode = None,
      cfg_showTurnNavigation = None, cfg_collapsible = None,
      cfg_showConversationStarters = None, cfg_showAttachments = None\<rparr>"

definition after_one_turn :: controller where
  "after_one_turn =
     resolved\<lparr>publishedGuideConfig := Some one_turn_config,
              messages := [mk_msg ''m-1'' User ''Hello'', mk_msg ''m-2'' Assistant ''Hi'']\<rparr>"

text \<open>An environment whose message stream rejects at once.\<close>

definition env_stream_fails :: env where
  "env_stream_fails = env0\<lparr>streamResponse := (\<lambda>_. ([], Some (Error ''HTTP 500: '')))\<rparr>"

text \<open>A controller with one finished turn and one uploaded attachment waiting, and an
  environment in which the server holds that turn and the message stream rejects at once.\<close>

definition pending_photo :: pending_attachment where
  "pending_photo =
     \<lparr>p_fileName = ''photo.jpg'',
      p_published = \<lparr>notebookFileId = ''f-1'', uploadType = ''ImageFile'', fileName = None\<rparr>\<rparr>"

definition with_history :: controller where
  "with_history =
     resolved\<lparr>messages := [mk_msg ''m-1'' User ''Hello'', mk_msg ''m-2'' Assistant ''Hi''],
              pendingAttachments := [pending_photo]\<rparr>"

definition env_history_stream_fails :: env where
  "env_history_stream_fails =
     env_stream_fails
       \<lparr>fetchHistory := (\<lambda>_. Inr [mk_msg ''m-1'' User ''Hello'', mk_msg ''m-2'' Assistant ''Hi''])\<rparr>"


section \<open>Supporting lemmas\<close>

subsection \<open>Turn grouping\<close>

lemma group_loop_flat:
  "turns_flat (finish_turns (group_loop ms turns cur)) =
     turns_flat (finish_turns (turns, cur)) @
       (if cur = None
        then filter (\<lambda>m. m_role m = User \<or> m_role m = Assistant)
               (dropWhile (\<lambda>m. m_role m \<noteq> User) ms)
        else filter (\<lambda>m. m_role m = User \<or> m_role m = Assistant) ms)"
  by (induction ms arbitrary: turns cur)
     (auto simp: turns_flat_def finish_turns_def turn_messages_def split: option.splits)

lemma group_loop_length:
  "length (finish_turns (group_loop ms turns cur)) =
     length (finish_turns (turns, cur)) + length (filter (\<lambda>m. m_role m = User) ms)"
  by (induction ms arbitrary: turns cur)
     (auto simp: finish_turns_def split: option.splits)

subsection \<open>Event-stream reading\<close>

lemma split_nl_nonempty: "split_nl s \<noteq> []"
  by (induction s) (auto split: list.splits)

lemma split_nl_append:
  "split_nl (a @ b) = butlast (split_nl a) @ split_nl (last (split_nl a) @ b)"
proof (induction a)
  case Nil
  show ?case by simp
next
  case (Cons ch cs)
  show ?case
  proof (cases "ch = CHR 0x0A")
    case True
    then show ?thesis using Cons split_nl_nonempty [of cs] by simp
  next
    case False
    obtain l ls where ls: "split_nl cs = l # ls"
      using split_nl_nonempty [of cs] by (cases "split_nl cs") auto
    show ?thesis
    proof (cases ls)
      case Nil
      with ls False Cons show ?thesis
        using split_nl_nonempty [of "l @ b"]
        by (auto split: list.splits)
    next
      case (Cons l2 ls2)
      with ls False Cons.IH show ?thesis
        by (auto split: list.splits)
    qed
  qed
qed

lemma split_nl_no_nl: "CHR 0x0A \<notin> set s \<Longrightarrow> split_nl s = [s]"
  by (induction s) auto

lemma last_split_nl_no_nl: "CHR 0x0A \<notin> set (last (split_nl s))"
proof (induction s)
  case Nil
  show ?case by simp
next
  case (Cons ch cs)
  then show ?case
    using split_nl_nonempty [of cs]
    by (cases "split_nl cs"; cases "tl (split_nl cs)") (auto split: if_splits)
qed

text \<open>The read loop processes exactly the complete lines of the text it has received,
  however the text is cut into chunks, and keeps the unfinished last line in its buffer.\<close>

lemma read_loop_lines:
  "CHR 0x0A \<notin> set buffer \<Longrightarrow>
   read_loop parse chunks buffer st =
     (last (split_nl (buffer @ concat chunks)),
      process_lines parse st (butlast (split_nl (buffer @ concat chunks))))"
proof (induction chunks arbitrary: buffer st)
  case Nil
  then show ?case by (simp add: process_lines_def split_nl_no_nl)
next
  case (Cons chunk rest)
  have eq: "split_nl (buffer @ chunk @ concat rest) =
      butlast (split_nl (buffer @ chunk)) @ split_nl (last (split_nl (buffer @ chunk)) @ concat rest)"
    using split_nl_append [of "buffer @ chunk" "concat rest"] by simp
  show ?case
    using split_nl_nonempty [of "last (split_nl (buffer @ chunk)) @ concat rest"]
    by (simp add: Cons.IH [OF last_split_nl_no_nl] eq Let_def butlast_append process_lines_def)
qed

lemma stream_events_lines:
  "stream_events parse chunks = snd (process_lines parse ([], []) (stream_lines chunks))"
  by (simp add: stream_events_def read_loop_lines stream_lines_def)

lemma data_not_event: "startsWith line ''data: '' \<Longrightarrow> \<not> startsWith line ''event: ''"
  by (cases line) auto

lemma process_line_malformed:
  "malformed_data_line parse l \<Longrightarrow> process_line parse st l = st"
  by (cases st) (auto simp: process_line_def malformed_data_line_def dest: data_not_event)

lemma process_lines_drop_malformed:
  "malformed_data_line parse l \<Longrightarrow>
     process_lines parse st (pre @ l # post) = process_lines parse st (pre @ post)"
  by (simp add: process_lines_def process_line_malformed)

lemma process_line_payload:
  "map snd (snd (process_line parse st l)) =
     map snd (snd st) @ (case line_payload parse l of Some j \<Rightarrow> [j] | None \<Rightarrow> [])"
  by (cases st)
     (auto simp: process_line_def line_payload_def dest: data_not_event split: option.splits)

lemma process_lines_payloads:
  "map snd (snd (process_lines parse st ls)) =
     map snd (snd st) @ List.map_filter (line_payload parse) ls"
proof (induction ls arbitrary: st)
  case Nil
  show ?case by (simp add: process_lines_def)
next
  case (Cons l ls)
  have step: "process_lines parse st (l # ls) = process_lines parse (process_line parse st l) ls"
    by (simp add: process_lines_def)
  show ?case
    unfolding step Cons.IH process_line_payload
    by (simp split: option.splits)
qed

subsection \<open>What resolving the configuration leaves alone\<close>

lemma apply_unless_attribute_session:
  "(\<And>x s. session_part (assign x s) = session_part s) \<Longrightarrow>
     session_part (apply_unless_attribute a v assign c) = session_part c"
  by (simp add: apply_unless_attribute_def split: option.splits)

lemma emit_session: "session_part (emit e c) = session_part c"
  by (simp add: session_part_def emit_def)

lemma tick_session: "session_part (tick c) = session_part c"
  by (simp add: session_part_def tick_def)

lemma applyConfig_session: "session_part (applyConfigToComponentProps c) = session_part c"
proof -
  have upd: "\<And>b s. session_part (s\<lparr>commandMode := b\<rparr>) = session_part s"
    "\<And>b s. session_part (s\<lparr>attachmentsEnabled := b\<rparr>) = session_part s"
    "\<And>b s. session_part (s\<lparr>conversationStartersEnabled := b\<rparr>) = session_part s"
    "\<And>b s. session_part (s\<lparr>collapsible := b\<rparr>) = session_part s"
    "\<And>b s. session_part (s\<lparr>enableTurnNavigation := b\<rparr>) = session_part s"
    "\<And>b s. session_part (s\<lparr>displayMode := b\<rparr>) = session_part s"
    by (simp_all add: session_part_def)
  show ?thesis
    by (simp add: applyConfigToComponentProps_def apply_unless_attribute_session upd
        emit_session split: option.splits)
qed

lemma renderFullState_session: "session_part (renderFullState c) = session_part c"
  by (simp add: renderFullState_def emit_session)

lemma starters_session:
  "session_part (initializeConversationStartersFromConfig c) = session_part c"
  by (simp add: initializeConversationStartersFromConfig_def session_part_def
      split: option.splits)

lemma initialize_session: "session_part (initialize e c) = session_part c"
proof -
  have upd: "\<And>s cfg av. session_part (s\<lparr>publishedGuideConfig := cfg\<rparr>) = session_part s"
     "\<And>s av. session_part (s\<lparr>publishedGuideAvatarUrl := av\<rparr>) = session_part s"
     "\<And>s a b g. session_part (s\<lparr>projectId := a, notebookId := b, guideId := g\<rparr>) = session_part s"
    by (simp_all add: session_part_def)
  show ?thesis
    by (simp add: initialize_def Let_def renderFullState_session applyConfig_session
        starters_session tick_session upd split: sum.splits)
qed

lemma ensureResolvedIds_session:
  "session_part (snd (ensureResolvedIds e c)) = session_part c"
  by (simp add: ensureResolvedIds_def Let_def initialize_session)

subsection \<open>Effects of a given kind\<close>

lemma invocations_append: "invocations (xs @ ys) = invocations xs @ invocations ys"
  by (induction xs rule: invocations.induct) auto

lemma submissions_append: "submissions (xs @ ys) = submissions xs @ submissions ys"
  by (induction xs rule: submissions.induct) auto

lemma missingHandlers_set:
  "set (missingHandlers reg calls) =
     {n. n \<noteq> [] \<and> reg n = None \<and> (\<exists>call\<in>set calls. tc_name call = Some n)}"
  by (induction calls) (auto simp: truthy_def split: option.splits)

subsection \<open>The stream cursor\<close>



















subsection \<open>Token events\<close>




subsection \<open>Tool-result submissions in the trace\<close>


lemma tick_trace: "trace (tick c) = trace c"
  by (simp add: tick_def)


















subsection \<open>Running the handlers\<close>



subsection \<open>The suspended example\<close>



subsection \<open>Custom events in the trace, and the fields resolving leaves alone\<close>

lemma dispatches_append: "dispatches (xs @ ys) = dispatches xs @ dispatches ys"
  by (induction xs rule: dispatches.induct) auto

lemma emit_dispatches:
  "dispatches (trace (emit ef c)) = dispatches (trace c) @ dispatches [ef]"
  by (simp add: emit_def dispatches_append)

lemma apply_unless_attribute_dispatches:
  "(\<And>x s. dispatches (trace (assign x s)) = dispatches (trace s)) \<Longrightarrow>
     dispatches (trace (apply_unless_attribute a v assign c)) = dispatches (trace c)"
  by (simp add: apply_unless_attribute_def split: option.splits)

lemma applyConfig_dispatches:
  "dispatches (trace (applyConfigToComponentProps c)) = dispatches (trace c)"
  by (simp add: applyConfigToComponentProps_def apply_unless_attribute_dispatches
      emit_dispatches split: option.splits)

lemma initialize_dispatches: "dispatches (trace (initialize e c)) = dispatches (trace c)"
  by (simp add: initialize_def Let_def renderFullState_def emit_dispatches
      applyConfig_dispatches initializeConversationStartersFromConfig_def tick_def
      split: sum.splits option.splits)

lemma ensureResolvedIds_dispatches:
  "dispatches (trace (snd (ensureResolvedIds e c))) = dispatches (trace c)"
  by (simp add: ensureResolvedIds_def Let_def initialize_dispatches)

lemma session_fields:
  assumes "session_part c' = session_part c"
  shows "messages c' = messages c" "isStreaming c' = isStreaming c"
    "streamingAssistantMessageId c' = streamingAssistantMessageId c"
    "pendingAttachments c' = pendingAttachments c" "inlineError c' = inlineError c"
    "conversationId c' = conversationId c" "pubId c' = pubId c"
    "sanitizedMessageContent c' = sanitizedMessageContent c"
    "toolRuns c' = toolRuns c" "authError c' = authError c"
  using assms by (simp_all add: session_part_def)

subsection \<open>The one-turn example\<close>

lemma after_one_turn_fields:
  "pubId after_one_turn = Some ''pub''" "\<not> commandMode after_one_turn"
  "\<not> collapsible after_one_turn" "projectId after_one_turn = Some ''p''"
  "notebookId after_one_turn = Some ''n''" "guideId after_one_turn = Some ''g''"
  "conversationId after_one_turn = Some ''c1''"
  "publishedGuideConfig after_one_turn = Some one_turn_config"
  "messages after_one_turn = [mk_msg ''m-1'' User ''Hello'', mk_msg ''m-2'' Assistant ''Hi'']"
  "isStreaming after_one_turn = False" "trace after_one_turn = []"
  "inlineError after_one_turn = None" "pendingAttachments after_one_turn = []"
  "steps after_one_turn = 0" "contextProvider after_one_turn = False"
  "sanitizedMessageContent after_one_turn = None"
  "streamingAssistantMessageId after_one_turn = None"
  by (simp_all add: after_one_turn_def resolved_def initial_def)

subsection \<open>Temporary messages and rollback\<close>

lemma is_temp_placeholder: "is_temp (placeholder clk)"
  by (simp add: is_temp_def placeholder_def)

lemma mutate_found_temp:
  "(\<And>m. p m \<Longrightarrow> is_temp m \<and> is_temp (f m)) \<Longrightarrow> mutate_found p f ms = Some ms' \<Longrightarrow>
     filter (\<lambda>m. \<not> is_temp m) ms' = filter (\<lambda>m. \<not> is_temp m) ms"
  by (induction ms arbitrary: ms') (auto split: if_splits)

lemma set_streaming_content_temp:
  assumes "slot_temp c"
  shows "filter (\<lambda>m. \<not> is_temp m) (messages (set_streaming_content f c)) =
           filter (\<lambda>m. \<not> is_temp m) (messages c)"
    and "slot_temp (set_streaming_content f c)"
    and "pendingAttachments (set_streaming_content f c) = pendingAttachments c"
proof -
  have p: "Some (m_id m) = streamingAssistantMessageId c \<Longrightarrow>
        is_temp m \<and> is_temp (m\<lparr>m_content := f (m_content m)\<rparr>)" for m
    using assms by (auto simp: slot_temp_def is_temp_def split: option.splits)
  show "filter (\<lambda>m. \<not> is_temp m) (messages (set_streaming_content f c)) =
           filter (\<lambda>m. \<not> is_temp m) (messages c)"
    using mutate_found_temp [of "\<lambda>m. Some (m_id m) = streamingAssistantMessageId c"
        "\<lambda>m. m\<lparr>m_content := f (m_content m)\<rparr>" "messages c", OF p]
    by (simp add: set_streaming_content_def emit_def split: option.splits)
  show "slot_temp (set_streaming_content f c)"
    using assms by (simp add: set_streaming_content_def emit_def slot_temp_def split: option.splits)
  show "pendingAttachments (set_streaming_content f c) = pendingAttachments c"
    by (simp add: set_streaming_content_def emit_def split: option.splits)
qed

lemma push_placeholder_temp:
  "filter (\<lambda>m. \<not> is_temp m) (messages (push_placeholder clk c)) =
     filter (\<lambda>m. \<not> is_temp m) (messages c)"
  "slot_temp (push_placeholder clk c)"
  "pendingAttachments (push_placeholder clk c) = pendingAttachments c"
  by (simp_all add: push_placeholder_def is_temp_placeholder slot_temp_def)
     (simp add: placeholder_def)

lemma slot_temp_upd:
  "slot_temp (c\<lparr>isStreaming := b\<rparr>) = slot_temp c"
  "slot_temp (c\<lparr>sanitizedMessageContent := s\<rparr>) = slot_temp c"
  "slot_temp (c\<lparr>inlineError := ie\<rparr>) = slot_temp c"
  "slot_temp (c\<lparr>trace := t\<rparr>) = slot_temp c"
  "slot_temp (c\<lparr>toolRuns := r\<rparr>) = slot_temp c"
  "slot_temp (c\<lparr>streamingAssistantMessageId := None\<rparr>)"
  by (simp_all add: slot_temp_def)

lemma handleSseEvent_temp:
  assumes "slot_temp c"
  shows "filter (\<lambda>m. \<not> is_temp m) (messages (handleSseEvent clk evt c)) =
           filter (\<lambda>m. \<not> is_temp m) (messages c)
    \<and> slot_temp (handleSseEvent clk evt c)
    \<and> pendingAttachments (handleSseEvent clk evt c) = pendingAttachments c"
proof -
  have tok: "filter (\<lambda>m. \<not> is_temp m) (messages (handle_token clk d c)) =
           filter (\<lambda>m. \<not> is_temp m) (messages c)
    \<and> slot_temp (handle_token clk d c)
    \<and> pendingAttachments (handle_token clk d c) = pendingAttachments c" for d
    using assms
    by (simp add: handle_token_def Let_def set_streaming_content_temp push_placeholder_temp
        emit_def slot_temp_upd)
  have am: "filter (\<lambda>m. \<not> is_temp m) (messages (handle_assistant_message clk d c)) =
           filter (\<lambda>m. \<not> is_temp m) (messages c)
    \<and> slot_temp (handle_assistant_message clk d c)
    \<and> pendingAttachments (handle_assistant_message clk d c) = pendingAttachments c" for d
    using assms
    by (simp add: handle_assistant_message_def Let_def set_streaming_content_temp
        push_placeholder_temp slot_temp_upd)
  have ms: "filter (\<lambda>m. \<not> is_temp m) (messages (handle_message clk d c)) =
           filter (\<lambda>m. \<not> is_temp m) (messages c)
    \<and> slot_temp (handle_message clk d c)
    \<and> pendingAttachments (handle_message clk d c) = pendingAttachments c" for d
    using assms
    by (simp add: handle_message_def Let_def set_streaming_content_temp
        push_placeholder_temp slot_temp_upd)
  have ex: "messages (handle_external_tool_call evt c) = messages c
    \<and> slot_temp (handle_external_tool_call evt c)
    \<and> pendingAttachments (handle_external_tool_call evt c) = pendingAttachments c"
    using assms
    by (simp add: handle_external_tool_call_def Let_def emit_def showError_def
        setInlineError_def slot_temp_def)
  have co: "messages (handle_complete c) = messages c
    \<and> slot_temp (handle_complete c)
    \<and> pendingAttachments (handle_complete c) = pendingAttachments c"
    by (simp add: handle_complete_def emit_def slot_temp_def)
  have em: "messages (emit ef s) = messages s" "slot_temp (emit ef s) = slot_temp s"
    "pendingAttachments (emit ef s) = pendingAttachments s" for ef s
    by (simp_all add: emit_def slot_temp_def)
  have se: "messages (showError x s) = messages s" "slot_temp (showError x s) = slot_temp s"
    "pendingAttachments (showError x s) = pendingAttachments s" for x s
    by (simp_all add: showError_def setInlineError_def slot_temp_def)
  show ?thesis
    using assms tok am ms ex co
    by (simp add: handleSseEvent_def Let_def em se)
qed

lemma handle_events_temp:
  "slot_temp c \<Longrightarrow>
     filter (\<lambda>m. \<not> is_temp m) (messages (handle_events evs c)) =
           filter (\<lambda>m. \<not> is_temp m) (messages c)
    \<and> slot_temp (handle_events evs c)
    \<and> pendingAttachments (handle_events evs c) = pendingAttachments c"
proof (induction evs arbitrary: c)
  case Nil
  then show ?case by simp
next
  case (Cons a evs)
  obtain clk evt where a: "a = (clk, evt)" by (cases a)
  show ?case
    using Cons.IH [of "handleSseEvent clk evt c"] handleSseEvent_temp [OF Cons.prems, of clk evt]
    by (simp add: a)
qed

lemma loadConversation_fails:
  "loadConversation e c = (Some err, c') \<Longrightarrow>
     messages c' = messages c \<and> pendingAttachments c' = pendingAttachments c
     \<and> streamingAssistantMessageId c' = streamingAssistantMessageId c"
  using session_fields [OF ensureResolvedIds_session [of e c]]
  by (auto simp: loadConversation_def Let_def tick_def split: if_splits prod.splits
      option.splits sum.splits)

lemma loadConversation_pending:
  "pendingAttachments (snd (loadConversation e c)) = pendingAttachments c"
  using session_fields [OF ensureResolvedIds_session [of e c]]
  by (auto simp: loadConversation_def Let_def tick_def emit_def split: prod.splits
      option.splits sum.splits)

lemma ensureConversation_pending:
  "pendingAttachments (snd (ensureConversation e c)) = pendingAttachments c"
proof (cases "truthy (conversationId c)")
  case True
  then show ?thesis by (simp add: ensureConversation_def loadConversation_pending)
next
  case False
  obtain r c1 where r: "ensureResolvedIds e c = (r, c1)" by (cases "ensureResolvedIds e c")
  have c1: "pendingAttachments c1 = pendingAttachments c"
    using session_fields [OF ensureResolvedIds_session [of e c]] r by simp
  have cc: "pendingAttachments (capture_context e c1) = pendingAttachments c1"
    by (simp add: capture_context_def tick_def split: sum.splits)
  show ?thesis
    using False r c1 cc
      loadConversation_pending
        [of e "tick (capture_context e c1\<lparr>conversationId := Some cid\<rparr>)" for cid]
    by (auto simp: ensureConversation_def Let_def tick_def split: option.splits sum.splits)
qed

lemma optimistic_append_temp:
  "filter (\<lambda>m. \<not> is_temp m) (messages (optimistic_append e content atts c)) =
     filter (\<lambda>m. \<not> is_temp m) (messages c)"
  "slot_temp (optimistic_append e content atts c)"
  "pendingAttachments (optimistic_append e content atts c) = pendingAttachments c"
  by (simp_all add: optimistic_append_def Let_def emit_def push_placeholder_def tick_def
      is_temp_def placeholder_def slot_temp_def)

lemma streamMessage_fails:
  assumes "streamMessage e content atts c = (Some err, c')" and "slot_temp c"
  shows "filter (\<lambda>m. \<not> is_temp m) (messages c') = filter (\<lambda>m. \<not> is_temp m) (messages c)
    \<and> pendingAttachments c' = pendingAttachments c"
proof -
  obtain r c1 where r: "ensureResolvedIds e c = (r, c1)" by (cases "ensureResolvedIds e c")
  have s1: "session_part c1 = session_part c"
    using ensureResolvedIds_session [of e c] r by simp
  have st1: "slot_temp c1" using assms(2) session_fields [OF s1] by (simp add: slot_temp_def)
  let ?c2 = "tick (emit (StreamRequest content atts) c1)"
  have c2: "messages ?c2 = messages c" "pendingAttachments ?c2 = pendingAttachments c"
    "slot_temp ?c2"
    using session_fields [OF s1] st1 by (simp_all add: tick_def emit_def slot_temp_def)
  let ?c3 = "handle_events (fst (streamResponse e (steps (emit (StreamRequest content atts) c1)))) ?c2"
  have c3: "filter (\<lambda>m. \<not> is_temp m) (messages ?c3) = filter (\<lambda>m. \<not> is_temp m) (messages c)"
    "pendingAttachments ?c3 = pendingAttachments c"
    using handle_events_temp [OF c2(3)] c2(1,2) by simp_all
  show ?thesis
  proof (cases r)
    case (Some err1)
    then show ?thesis using assms(1) r session_fields [OF s1]
      by (simp add: streamMessage_def)
  next
    case None
    show ?thesis
    proof (cases "snd (streamResponse e (steps (emit (StreamRequest content atts) c1)))")
      case (Some err2)
      then show ?thesis using assms(1) r None c3
        by (simp add: streamMessage_def Let_def)
    next
      case n2: None
      obtain r4 c4 where r4: "loadConversation e ?c3 = (r4, c4)"
        by (cases "loadConversation e ?c3")
      show ?thesis
        using assms(1) r None n2 r4 c3 loadConversation_fails [of e ?c3 _ c4]
        by (auto simp: streamMessage_def Let_def split: option.splits)
    qed
  qed
qed

subsection \<open>The limits and the history example\<close>

lemma limits_taken:
  "exceeds_max_length (emit ef (c\<lparr>pendingAttachments := p\<rparr>)) content = exceeds_max_length c content"
  "reached_max_turns (emit ef (c\<lparr>pendingAttachments := p\<rparr>)) = reached_max_turns c"
  by (simp_all add: exceeds_max_length_def reached_max_turns_def maxTurns_def
      maxUserMessageLength_def emit_def split: option.splits)

lemma with_history_fields:
  "pubId with_history = Some ''pub''" "\<not> commandMode with_history"
  "\<not> collapsible with_history" "projectId with_history = Some ''p''"
  "notebookId with_history = Some ''n''" "guideId with_history = Some ''g''"
  "conversationId with_history = Some ''c1''"
  "publishedGuideConfig with_history = None"
  "messages with_history = [mk_msg ''m-1'' User ''Hello'', mk_msg ''m-2'' Assistant ''Hi'']"
  "isStreaming with_history = False" "trace with_history = []"
  "inlineError with_history = None" "pendingAttachments with_history = [pending_photo]"
  "steps with_history = 0" "contextProvider with_history = False"
  "sanitizedMessageContent with_history = None"
  "streamingAssistantMessageId with_history = None"
  by (simp_all add: with_history_def resolved_def initial_def)

subsection \<open>A whole send\<close>


section \<open>Claims\<close>

text \<open>
  C1 (as amended). When an \<^verbatim>\<open>external_tool_call\<close> event names at least one non-empty
  tool name that has no handler in the registry, the event only sets \<open>isStreaming\<close> to
  false, sets the inline error to a message that lists the missing names, and dispatches
  \<^verbatim>\<open>wf-error\<close> with that message: no \<^verbatim>\<open>handleRegisteredTools\<close> run is started, so no
  handler is invoked and no tool results are submitted.
\<close>

theorem C1_missing_handler_aborts:
  assumes "ev_type evt = ''external_tool_call''"
    and "d_toolCalls (ev_data evt) = Some calls"
    and "call \<in> set calls" and "tc_name call = Some n" and "n \<noteq> []"
    and "toolRegistry c n = None"
  shows "n \<in> set (missingHandlers (toolRegistry c) calls)
    \<and> handleSseEvent clk evt c =
        c\<lparr>isStreaming := False,
          inlineError := Some (''No handler registered for tool(s): ''
                                @ join '', '' (missingHandlers (toolRegistry c) calls)),
          trace := trace c @
            [UpdateButtons,
             Dispatch ''wf-error''
               (ErrorDetail (Error (''No handler registered for tool(s): ''
                  @ join '', '' (missingHandlers (toolRegistry c) calls))))]\<rparr>
    \<and> toolRuns (handleSseEvent clk evt c) = toolRuns c
    \<and> invocations (trace (handleSseEvent clk evt c)) = invocations (trace c)
    \<and> submissions (trace (handleSseEvent clk evt c)) = submissions (trace c)
    \<and> \<not> isStreaming (handleSseEvent clk evt c)"
proof -
  have mem: "n \<in> set (missingHandlers (toolRegistry c) calls)"
    using assms by (auto simp: missingHandlers_set)
  then have ne: "missingHandlers (toolRegistry c) calls \<noteq> []" and cne: "calls \<noteq> []"
    using assms(3) by auto
  have eq: "handleSseEvent clk evt c =
        c\<lparr>isStreaming := False,
          inlineError := Some (''No handler registered for tool(s): ''
                                @ join '', '' (missingHandlers (toolRegistry c) calls)),
          trace := trace c @
            [UpdateButtons,
             Dispatch ''wf-error''
               (ErrorDetail (Error (''No handler registered for tool(s): ''
                  @ join '', '' (missingHandlers (toolRegistry c) calls))))]\<rparr>"
    using assms(1,2) ne cne
    by (simp add: handleSseEvent_def handle_external_tool_call_def Let_def emit_def
        showError_def setInlineError_def)
  show ?thesis unfolding eq using mem by (simp add: invocations_append submissions_append)
qed

text \<open>Two requested calls, only \<open>alpha\<close> registered: the error names \<open>beta\<close>, and nothing
  is run.\<close>

theorem C1_witness:
  "inlineError (handleSseEvent clock0 (external_tool_call [call_alpha, call_beta])
      (registerTool ''alpha'' echo_handler mid_stream))
     = Some ''No handler registered for tool(s): beta''
   \<and> trace (handleSseEvent clock0 (external_tool_call [call_alpha, call_beta])
      (registerTool ''alpha'' echo_handler mid_stream))
     = [UpdateButtons,
        Dispatch ''wf-error'' (ErrorDetail (Error ''No handler registered for tool(s): beta''))]
   \<and> toolRuns (handleSseEvent clock0 (external_tool_call [call_alpha, call_beta])
      (registerTool ''alpha'' echo_handler mid_stream)) = []
   \<and> \<not> isStreaming (handleSseEvent clock0 (external_tool_call [call_alpha, call_beta])
      (registerTool ''alpha'' echo_handler mid_stream))"
proof -
  have h1: "ev_type (external_tool_call [call_alpha, call_beta]) = ''external_tool_call''"
    by (simp add: external_tool_call_def)
  have h2: "d_toolCalls (ev_data (external_tool_call [call_alpha, call_beta]))
              = Some [call_alpha, call_beta]"
    by (simp add: external_tool_call_def no_data_def)
  have h3: "call_beta \<in> set [call_alpha, call_beta]" by simp
  have h4: "tc_name call_beta = Some ''beta''" by (simp add: call_beta_def)
  have h5: "''beta'' \<noteq> []" by simp
  have h6: "toolRegistry (registerTool ''alpha'' echo_handler mid_stream) ''beta'' = None"
    by (simp add: registerTool_def mid_stream_def resolved_def initial_def)
  have m: "missingHandlers (toolRegistry (registerTool ''alpha'' echo_handler mid_stream))
             [call_alpha, call_beta] = [''beta'']"
    by (simp add: registerTool_def mid_stream_def resolved_def initial_def call_alpha_def
        call_beta_def truthy_def)
  have t: "trace (registerTool ''alpha'' echo_handler mid_stream) = []"
    "toolRuns (registerTool ''alpha'' echo_handler mid_stream) = []"
    by (simp_all add: registerTool_def mid_stream_def resolved_def initial_def)
  show ?thesis
    using C1_missing_handler_aborts [OF h1 h2 h3 h4 h5 h6, of clock0, unfolded m]
    by (simp add: t)
qed

text \<open>
  C1 as stated fails for the empty tool name: a call whose name is the empty string has no
  handler, yet the guard \<^verbatim>\<open>toolName && ...\<close> does not count it as missing, no error is
  surfaced or dispatched, and a \<^verbatim>\<open>handleRegisteredTools\<close> run is started.
\<close>

theorem C1_counterexample:
  "tc_name call_unnamed = Some []
   \<and> toolRegistry mid_stream [] = None
   \<and> inlineError (handleSseEvent clock0 (external_tool_call [call_unnamed]) mid_stream) = None
   \<and> trace (handleSseEvent clock0 (external_tool_call [call_unnamed]) mid_stream)
       = [UpdateButtons]
   \<and> toolRuns (handleSseEvent clock0 (external_tool_call [call_unnamed]) mid_stream)
       = [[call_unnamed]]"
  by (simp add: handleSseEvent_def handle_external_tool_call_def Let_def emit_def
      external_tool_call_def no_data_def call_unnamed_def mid_stream_def resolved_def
      initial_def truthy_def)




text \<open>
  C3 (as amended). If a send passes the limit checks, ensures its conversation, and then
  fails while the message is streamed (the stream request rejects, at once or after some
  events), then afterwards the message list is the history as reloaded at the start of
  the send without any message that has a temporary id: both optimistic messages are
  gone, and where the reloaded history holds no temporary id the list is exactly that
  history. The pending attachments are as before the send, the error is surfaced (its
  message as the inline error and a \<^verbatim>\<open>wf-error\<close> event carrying it, or for an
  authentication error its message and a \<^verbatim>\<open>wf-auth-error\<close> event), and the stream cursor
  is cleared.
\<close>

theorem C3_rollback:
  assumes "\<not> exceeds_max_length c content" and "\<not> reached_max_turns c"
    and "ensureConversation e
           (stream_start (emit RenderAttachmentsQueue (c\<lparr>pendingAttachments := []\<rparr>))) = (None, c2)"
    and "streamMessage e content (all_attachments natts (pendingAttachments c))
           (optimistic_append e content (all_attachments natts (pendingAttachments c)) c2)
         = (Some err, c5)"
  shows "messages (send_resolved e content natts c) = filter (\<lambda>m. \<not> is_temp m) (messages c2)
    \<and> (list_all (\<lambda>m. \<not> is_temp m) (messages c2) \<longrightarrow>
         messages (send_resolved e content natts c) = messages c2)
    \<and> pendingAttachments (send_resolved e content natts c) = pendingAttachments c
    \<and> inlineError (send_resolved e content natts c) =
        Some (case err of
                Error msg \<Rightarrow> if msg \<noteq> [] then msg else ''Request failed''
              | AuthenticationError code msg requiresAuth \<Rightarrow> msg)
    \<and> (case err of
          Error msg \<Rightarrow> Dispatch ''wf-error'' (ErrorDetail err)
        | AuthenticationError code msg requiresAuth \<Rightarrow>
            Dispatch ''wf-auth-error'' (AuthErrorDetail code msg requiresAuth))
        \<in> set (trace (send_resolved e content natts c))
    \<and> \<not> isStreaming (send_resolved e content natts c)
    \<and> streamingAssistantMessageId (send_resolved e content natts c) = None"
proof -
  let ?c1 = "emit RenderAttachmentsQueue (c\<lparr>pendingAttachments := []\<rparr>)"
  let ?atts = "all_attachments natts (pendingAttachments c)"
  let ?o = "optimistic_append e content ?atts c2"
  have p2: "pendingAttachments c2 = []"
    using ensureConversation_pending [of e "stream_start ?c1"] assms(3)
    by (simp add: stream_start_def emit_def)
  have f5: "filter (\<lambda>m. \<not> is_temp m) (messages c5) = filter (\<lambda>m. \<not> is_temp m) (messages c2)"
    and p5: "pendingAttachments c5 = []"
    using streamMessage_fails [OF assms(4) optimistic_append_temp(2)]
      optimistic_append_temp(1,3) [of e content ?atts c2] p2
    by simp_all
  have st: "send_try e content ?atts (stream_start ?c1) = (Some err, c5)"
    using assms(3,4) by (simp add: send_try_def)
  have eq: "send_resolved e content natts c =
      stream_finally (send_catch (pendingAttachments c) err c5)"
    using assms(1,2) st by (simp add: send_resolved_def Let_def limits_taken)
  show ?thesis
    unfolding eq using f5 p5
    by (cases err)
       (auto simp: stream_finally_def send_catch_def Let_def emit_def handleAuthError_def
          showError_def setInlineError_def list_all_iff)
qed

theorem C3_witness:
  "messages (send_resolved env_history_stream_fails ''again'' None with_history)
     = [mk_msg ''m-1'' User ''Hello'', mk_msg ''m-2'' Assistant ''Hi'']
   \<and> length (messages (send_resolved env_history_stream_fails ''again'' None with_history))
     = length (messages with_history)
   \<and> pendingAttachments (send_resolved env_history_stream_fails ''again'' None with_history)
     = [pending_photo]
   \<and> inlineError (send_resolved env_history_stream_fails ''again'' None with_history)
     = Some ''HTTP 500: ''
   \<and> Dispatch ''wf-error'' (ErrorDetail (Error ''HTTP 500: ''))
     \<in> set (trace (send_resolved env_history_stream_fails ''again'' None with_history))
   \<and> performSend env_history_stream_fails ''again'' None with_history
     = send_resolved env_history_stream_fails ''again'' None with_history"
proof -
  let ?h = "[mk_msg ''m-1'' User ''Hello'', mk_msg ''m-2'' Assistant ''Hi'']"
  let ?c2 = "(stream_start (emit RenderAttachmentsQueue (with_history\<lparr>pendingAttachments := []\<rparr>)))
               \<lparr>messages := ?h, steps := 1\<rparr>"
  have h1: "\<not> exceeds_max_length with_history ''again''"
    by (simp add: exceeds_max_length_def maxUserMessageLength_def with_history_fields)
  have h2: "\<not> reached_max_turns with_history"
    by (simp add: reached_max_turns_def maxTurns_def with_history_fields)
  have h3: "ensureConversation env_history_stream_fails
           (stream_start (emit RenderAttachmentsQueue (with_history\<lparr>pendingAttachments := []\<rparr>)))
         = (None, ?c2)"
    by (simp add: ensureConversation_def loadConversation_def ensureResolvedIds_def
        stream_start_def emit_def with_history_fields truthy_def env_history_stream_fails_def
        env_stream_fails_def env0_def Let_def tick_def)
  have h4: "\<exists>c5. streamMessage env_history_stream_fails ''again''
           (all_attachments None (pendingAttachments with_history))
           (optimistic_append env_history_stream_fails ''again''
              (all_attachments None (pendingAttachments with_history)) ?c2)
         = (Some (Error ''HTTP 500: ''), c5)"
    by (simp add: streamMessage_def ensureResolvedIds_def optimistic_append_def Let_def
        stream_start_def emit_def tick_def push_placeholder_def with_history_fields truthy_def
        env_history_stream_fails_def env_stream_fails_def env0_def)
  then obtain c5 where h4': "streamMessage env_history_stream_fails ''again''
           (all_attachments None (pendingAttachments with_history))
           (optimistic_append env_history_stream_fails ''again''
              (all_attachments None (pendingAttachments with_history)) ?c2)
         = (Some (Error ''HTTP 500: ''), c5)" ..
  have ps: "performSend env_history_stream_fails ''again'' None with_history
     = send_resolved env_history_stream_fails ''again'' None with_history"
    by (simp add: performSend_def Let_def with_history_fields truthy_def ensureResolvedIds_def
        normalizeAttachments_def)
  show ?thesis
    using C3_rollback [OF h1 h2 h3 h4'] ps
    by (simp add: with_history_fields stream_start_def emit_def is_temp_def mk_msg_def)
qed

text \<open>
  C3 as stated fails in command mode: the send empties the message list before anything
  else, so after the failed send the list is empty while it held two messages before the
  call.
\<close>

theorem C3_counterexample:
  "length (messages (with_history\<lparr>commandMode := True\<rparr>)) = 2
   \<and> messages (performSend env_stream_fails ''next'' None (with_history\<lparr>commandMode := True\<rparr>)) = []
   \<and> inlineError (performSend env_stream_fails ''next'' None (with_history\<lparr>commandMode := True\<rparr>))
       = Some ''HTTP 500: ''"
  by (simp add: performSend_def send_resolved_def Let_def with_history_def resolved_def
      initial_def truthy_def normalizeAttachments_def ensureResolvedIds_def emit_def
      exceeds_max_length_def reached_max_turns_def maxTurns_def maxUserMessageLength_def
      mk_msg_def all_attachments_def stream_start_def is_temp_def
      send_try_def ensureConversation_def capture_context_def env_stream_fails_def env0_def
      tick_def loadConversation_def optimistic_append_def push_placeholder_def placeholder_def
      streamMessage_def stream_finally_def send_catch_def showError_def setInlineError_def
      clock0_def pending_photo_def)

text \<open>
  C4 (as amended). For every message list the number of turns is the number of \<open>User\<close>
  messages, and the turns laid end to end are the original list without the messages
  before the first \<open>User\<close> message and without the \<open>System\<close> and \<open>Tool\<close> messages:
  the \<open>User\<close> and \<open>Assistant\<close> messages from the first \<open>User\<close> message on, in their
  original order.
\<close>

theorem C4_turn_grouping:
  "length (groupMessagesIntoTurns msgs) = getTurnCount msgs \<and>
   turns_flat (groupMessagesIntoTurns msgs) =
     filter (\<lambda>m. m_role m = User \<or> m_role m = Assistant)
       (dropWhile (\<lambda>m. m_role m \<noteq> User) msgs)"
  using group_loop_flat [of msgs "[]" None] group_loop_length [of msgs "[]" None]
  by (simp add: groupMessagesIntoTurns_def getTurnCount_def finish_turns_def turns_flat_def)

theorem C4_witness:
  "length (groupMessagesIntoTurns
       [mk_msg ''a0'' Assistant ''orphan'', mk_msg ''u1'' User ''hi'', mk_msg ''a1'' Assistant ''yo'',
        mk_msg ''u2'' User ''more'']) = 2
   \<and> turns_flat (groupMessagesIntoTurns
       [mk_msg ''a0'' Assistant ''orphan'', mk_msg ''u1'' User ''hi'', mk_msg ''a1'' Assistant ''yo'',
        mk_msg ''u2'' User ''more''])
     = [mk_msg ''u1'' User ''hi'', mk_msg ''a1'' Assistant ''yo'', mk_msg ''u2'' User ''more'']"
  using C4_turn_grouping
    [of "[mk_msg ''a0'' Assistant ''orphan'', mk_msg ''u1'' User ''hi'',
          mk_msg ''a1'' Assistant ''yo'', mk_msg ''u2'' User ''more'']"]
  by (simp add: getTurnCount_def mk_msg_def)

text \<open>
  C4 as stated fails: a \<open>Tool\<close> message after the first \<open>User\<close> message belongs to no
  turn. The list below has no leading assistant message to ignore, and the turns laid end
  to end are not the list.
\<close>

theorem C4_counterexample:
  "turns_flat (groupMessagesIntoTurns
       [mk_msg ''u1'' User ''hi'', mk_msg ''t1'' Tool ''r'', mk_msg ''a1'' Assistant ''yo''])
     = [mk_msg ''u1'' User ''hi'', mk_msg ''a1'' Assistant ''yo'']
   \<and> turns_flat (groupMessagesIntoTurns
       [mk_msg ''u1'' User ''hi'', mk_msg ''t1'' Tool ''r'', mk_msg ''a1'' Assistant ''yo''])
     \<noteq> [mk_msg ''u1'' User ''hi'', mk_msg ''t1'' Tool ''r'', mk_msg ''a1'' Assistant ''yo'']"
  by (simp add: groupMessagesIntoTurns_def finish_turns_def turns_flat_def turn_messages_def
      mk_msg_def)










text \<open>
  C9. A \<^verbatim>\<open>data:\<close> line whose payload does not parse changes nothing: the read loop is
  total (nothing is raised), and the events it delivers are those of the same stream without
  that line, so the events of the lines before and after it are delivered, with their types,
  in arrival order; in particular the payloads delivered are those of the remaining
  \<^verbatim>\<open>data:\<close> lines that parse, in order.
\<close>

theorem C9_malformed_data_dropped:
  assumes "malformed_data_line parse l"
    and "stream_lines chunks = pre @ l # post"
  shows "stream_events parse chunks = snd (process_lines parse ([], []) (pre @ post))
    \<and> map snd (stream_events parse chunks) = List.map_filter (line_payload parse) (pre @ post)"
proof -
  have a: "stream_events parse chunks = snd (process_lines parse ([], []) (pre @ post))"
    unfolding stream_events_lines assms(2)
    using process_lines_drop_malformed [OF assms(1)] by simp
  show ?thesis using a process_lines_payloads [of parse "([], [])" "pre @ post"] by simp
qed

theorem C9_witness:
  "malformed_data_line toy_parse ''data: oops''
   \<and> stream_lines example_chunks =
       [''event: token'', ''data: {}'', ''''] @ ''data: oops'' # ['''', ''data: [1]'', '''']
   \<and> stream_events toy_parse example_chunks = [(''token'', ''{}''), (''data'', ''[1]'')]"
proof -
  have h1: "malformed_data_line toy_parse ''data: oops''"
    by (simp add: malformed_data_line_def toy_parse_def)
  have h2: "stream_lines example_chunks =
       [''event: token'', ''data: {}'', ''''] @ ''data: oops'' # ['''', ''data: [1]'', '''']"
    by (simp add: stream_lines_def example_chunks_def)
  have "snd (process_lines toy_parse ([], [])
          ([''event: token'', ''data: {}'', ''''] @ ['''', ''data: [1]'', '''']))
        = [(''token'', ''{}''), (''data'', ''[1]'')]"
    by (simp add: process_lines_def process_line_def toy_parse_def)
  with C9_malformed_data_dropped [OF h1 h2] h1 h2 show ?thesis by simp
qed

text \<open>
  C10 (as amended). With command mode off, a pub-id set and the guide configuration
  resolved, if \<open>maxTurns\<close> is set to a non-zero number, the message is within the length
  limit, and the number of \<open>User\<close> messages already equals or exceeds \<open>maxTurns\<close>, then a
  send sets the inline error to a message naming the maximum and returns: \<open>isStreaming\<close>,
  the streaming id and the message list are as before, and no event is dispatched beyond
  \<^verbatim>\<open>wf-expanded\<close> when the send first expanded the component (so no \<^verbatim>\<open>wf-stream-start\<close>).
\<close>

theorem C10_max_turns:
  assumes "truthy (pubId c)" and "\<not> commandMode c"
    and "ensureResolvedIds e (if collapsible c \<and> isCollapsed c then expand c else c) = (None, c3)"
    and "maxTurns c3 = Some n" and "n \<noteq> 0"
    and "int (getTurnCount (messages c)) \<ge> n"
    and "\<not> exceeds_max_length c3 content"
  shows "inlineError (performSend e content atts c) =
           Some (''This conversation has reached the maximum of '' @ show_int n @ '' turns'')
    \<and> isStreaming (performSend e content atts c) = isStreaming c
    \<and> streamingAssistantMessageId (performSend e content atts c) = streamingAssistantMessageId c
    \<and> messages (performSend e content atts c) = messages c
    \<and> dispatches (trace (performSend e content atts c)) =
        dispatches (trace c) @
          (if collapsible c \<and> isCollapsed c then [(''wf-expanded'', NoDetail)] else [])"
proof -
  let ?c1 = "if collapsible c \<and> isCollapsed c then expand c else c"
  have cm: "\<not> commandMode ?c1" using assms(2) by (simp add: expand_def emit_def)
  have s1: "session_part ?c1 = session_part (c\<lparr>isCollapsed := isCollapsed ?c1\<rparr>)"
    by (simp add: expand_def emit_def session_part_def)
  have s3: "session_part c3 = session_part ?c1"
    using ensureResolvedIds_session [of e ?c1] assms(3) by simp
  have m3: "messages c3 = messages c" "isStreaming c3 = isStreaming c"
    "streamingAssistantMessageId c3 = streamingAssistantMessageId c"
    using session_fields [OF s3] session_fields [OF s1] by simp_all
  have d1: "dispatches (trace ?c1) = dispatches (trace c) @
          (if collapsible c \<and> isCollapsed c then [(''wf-expanded'', NoDetail)] else [])"
    by (simp add: expand_def emit_dispatches)
  have d3: "dispatches (trace c3) = dispatches (trace ?c1)"
    using ensureResolvedIds_dispatches [of e ?c1] assms(3) by simp
  let ?t = "emit RenderAttachmentsQueue (c3\<lparr>pendingAttachments := []\<rparr>)"
  have lim: "\<not> exceeds_max_length ?t content" "reached_max_turns ?t" "maxTurns ?t = Some n"
    using assms(4-7) m3
    by (simp_all add: exceeds_max_length_def reached_max_turns_def maxTurns_def
        maxUserMessageLength_def emit_def getTurnCount_def)
  have ps: "performSend e content atts c =
      showError (''This conversation has reached the maximum of '' @ show_int n @ '' turns'') ?t"
    using assms(1,3) cm lim
    by (simp add: performSend_def send_resolved_def Let_def)
  show ?thesis
    unfolding ps using m3 d1 d3
    by (simp add: showError_def setInlineError_def emit_def dispatches_append)
qed

theorem C10_witness:
  "inlineError (performSend env0 ''again'' None after_one_turn) =
      Some ''This conversation has reached the maximum of 1 turns''
   \<and> \<not> isStreaming (performSend env0 ''again'' None after_one_turn)
   \<and> messages (performSend env0 ''again'' None after_one_turn) = messages after_one_turn
   \<and> dispatches (trace (performSend env0 ''again'' None after_one_turn)) = []"
proof -
  have h1: "truthy (pubId after_one_turn)" by (simp add: after_one_turn_fields truthy_def)
  have h2: "\<not> commandMode after_one_turn" by (simp add: after_one_turn_fields)
  have h3: "ensureResolvedIds env0
      (if collapsible after_one_turn \<and> isCollapsed after_one_turn
       then expand after_one_turn else after_one_turn) = (None, after_one_turn)"
    by (simp add: after_one_turn_fields ensureResolvedIds_def truthy_def)
  have h4: "maxTurns after_one_turn = Some 1"
    by (simp add: maxTurns_def after_one_turn_fields one_turn_config_def)
  have h5: "(1::int) \<noteq> 0" by simp
  have h6: "int (getTurnCount (messages after_one_turn)) \<ge> 1"
    by (simp add: after_one_turn_fields getTurnCount_def mk_msg_def)
  have h7: "\<not> exceeds_max_length after_one_turn ''again''"
    by (simp add: exceeds_max_length_def maxUserMessageLength_def after_one_turn_fields
        one_turn_config_def)
  show ?thesis
    using C10_max_turns [OF h1 h2 h3 h4 h5 h6 h7, of None]
    by (simp add: after_one_turn_fields show_int_def show_nat.simps)
qed

text \<open>
  C10 as stated fails in command mode: the send first empties the message list, so the
  one \<open>User\<close> message that reached \<open>maxTurns = 1\<close> is no longer counted, no error is
  shown, and the stream is started.
\<close>

theorem C10_counterexample:
  "maxTurns (after_one_turn\<lparr>commandMode := True\<rparr>) = Some 1
   \<and> getTurnCount (messages (after_one_turn\<lparr>commandMode := True\<rparr>)) = 1
   \<and> inlineError (performSend env0 ''again'' None (after_one_turn\<lparr>commandMode := True\<rparr>)) = None
   \<and> dispatches (trace (performSend env0 ''again'' None (after_one_turn\<lparr>commandMode := True\<rparr>)))
       = [(''wf-stream-start'', NoDetail), (''wf-complete'', NoDetail)]"
  by (simp add: performSend_def send_resolved_def Let_def after_one_turn_def resolved_def
      initial_def truthy_def normalizeAttachments_def ensureResolvedIds_def emit_def
      exceeds_max_length_def reached_max_turns_def maxTurns_def maxUserMessageLength_def
      one_turn_config_def mk_msg_def getTurnCount_def all_attachments_def stream_start_def
      send_try_def ensureConversation_def capture_context_def env0_def tick_def
      loadConversation_def optimistic_append_def push_placeholder_def placeholder_def
      streamMessage_def stream_finally_def clock0_def)

end
